theory Spec2Isabelle
  imports Complex_Main "HOL-Library.Word" "HOL-Library.Sublist"
begin

section \<open>The streaming buffer\<close>

text \<open>
  Audio arrives as raw bytes. A Python \<open>bytes\<close> or \<open>bytearray\<close> value is a list of
  8-bit words; the slices \<open>b[:n]\<close> and \<open>b[n:]\<close> (for \<open>n \<ge> 0\<close>) are \<open>take n b\<close> and
  \<open>drop n b\<close>.
\<close>

type_synonym byte = "8 word"
type_synonym bytes = "byte list"

definition SAMPLE_RATE :: nat where
  "SAMPLE_RATE = 16000"

definition MIN_CHUNK_SIZE :: nat where
  "MIN_CHUNK_SIZE = 48000"

definition OVERLAP_SIZE :: nat where
  "OVERLAP_SIZE = 16000"

definition MAX_BUFFER_SIZE :: nat where
  "MAX_BUFFER_SIZE = 160000"

text \<open>
  Lines 507-511 of \<open>handle_websocket\<close>: once the new bytes are appended, a buffer
  longer than \<open>MAX_BUFFER_SIZE\<close> keeps only its most recent bytes.
\<close>

definition trim_overflow :: "bytes \<Rightarrow> bytes" where
  "trim_overflow buf =
     (if length buf > MAX_BUFFER_SIZE
      then (let excess = length buf - MAX_BUFFER_SIZE in drop excess buf)
      else buf)"

text \<open>
  Lines 514-528: the \<open>while\<close> loop that cuts chunks off the front of the buffer. The
  result is the buffer the loop leaves and the chunks in the order in which their tasks
  are created.
\<close>

function extract_chunks :: "bytes \<Rightarrow> bytes \<times> bytes list" where
  "extract_chunks buf =
     (if length buf \<ge> MIN_CHUNK_SIZE then
        (let chunk = take MIN_CHUNK_SIZE buf;
             buf' = (if length buf > MIN_CHUNK_SIZE
                     then drop (MIN_CHUNK_SIZE - OVERLAP_SIZE) buf
                     else []);
             (rest, chunks) = extract_chunks buf'
         in (rest, chunk # chunks))
      else (buf, []))"
  by pat_completeness auto
termination
  by (relation "measure length") (auto simp: MIN_CHUNK_SIZE_def OVERLAP_SIZE_def)

declare extract_chunks.simps [simp del]

text \<open>
  Lines 504-528 for one binary message: \<open>extend\<close>, the overflow trim, the loop.
\<close>

definition feed :: "bytes \<Rightarrow> bytes \<Rightarrow> bytes \<times> bytes list" where
  "feed buf message = extract_chunks (trim_overflow (buf @ message))"

text \<open>
  A session buffer over time: the messages of one stream, fed one after the other.
\<close>

fun feed_all :: "bytes \<Rightarrow> bytes list \<Rightarrow> bytes \<times> bytes list" where
  "feed_all buf [] = (buf, [])"
| "feed_all buf (message # messages) =
     (let (buf1, chunks1) = feed buf message;
          (buf2, chunks2) = feed_all buf1 messages
      in (buf2, chunks1 @ chunks2))"

subsection \<open>The same operations, with a trace of what they did\<close>

text \<open>
  To speak about what happens between two chunks, the operations above are run once
  more with a trace: a chunk handed to a task, the branch that clears the buffer
  (line 525), and the overflow trim with the number of bytes it logs (line 511).
  The buffers and the chunks are those of \<open>feed\<close> (lemma \<open>feed_events_feed\<close>).
\<close>

datatype event = Chunk bytes | Cleared | Overflow nat

fun chunks_of :: "event list \<Rightarrow> bytes list" where
  "chunks_of [] = []"
| "chunks_of (Chunk c # evs) = c # chunks_of evs"
| "chunks_of (Cleared # evs) = chunks_of evs"
| "chunks_of (Overflow n # evs) = chunks_of evs"

definition trim_overflow_events :: "bytes \<Rightarrow> bytes \<times> event list" where
  "trim_overflow_events buf =
     (if length buf > MAX_BUFFER_SIZE
      then (let excess = length buf - MAX_BUFFER_SIZE in (drop excess buf, [Overflow excess]))
      else (buf, []))"

function extract_events :: "bytes \<Rightarrow> bytes \<times> event list" where
  "extract_events buf =
     (if length buf \<ge> MIN_CHUNK_SIZE then
        (let chunk = take MIN_CHUNK_SIZE buf;
             (buf', mark) = (if length buf > MIN_CHUNK_SIZE
                             then (drop (MIN_CHUNK_SIZE - OVERLAP_SIZE) buf, [])
                             else ([], [Cleared]));
             (rest, evs) = extract_events buf'
         in (rest, Chunk chunk # mark @ evs))
      else (buf, []))"
  by pat_completeness auto
termination
  by (relation "measure length")
     (auto simp: MIN_CHUNK_SIZE_def OVERLAP_SIZE_def split: if_splits)

declare extract_events.simps [simp del]

definition feed_events :: "bytes \<Rightarrow> bytes \<Rightarrow> bytes \<times> event list" where
  "feed_events buf message =
     (let (buf1, evs1) = trim_overflow_events (buf @ message);
          (buf2, evs2) = extract_events buf1
      in (buf2, evs1 @ evs2))"

fun run_events :: "bytes \<Rightarrow> bytes list \<Rightarrow> bytes \<times> event list" where
  "run_events buf [] = (buf, [])"
| "run_events buf (message # messages) =
     (let (buf1, evs1) = feed_events buf message;
          (buf2, evs2) = run_events buf1 messages
      in (buf2, evs1 @ evs2))"

text \<open>Two neighbours of a trace: a chunk right after a chunk starts with its tail.\<close>

fun joined :: "event \<Rightarrow> event \<Rightarrow> bool" where
  "joined (Chunk a) (Chunk b) = (drop (MIN_CHUNK_SIZE - OVERLAP_SIZE) a = take OVERLAP_SIZE b)"
| "joined (Chunk a) Cleared = True"
| "joined (Chunk a) (Overflow n) = True"
| "joined Cleared e = True"
| "joined (Overflow n) e = True"

fun overlap_ok :: "event list \<Rightarrow> bool" where
  "overlap_ok [] = True"
| "overlap_ok [e] = True"
| "overlap_ok (e1 # e2 # es) = (joined e1 e2 \<and> overlap_ok (e2 # es))"

section \<open>The WebSocket handler\<close>

text \<open>
  A decoded JSON text is a Python value. An object is kept as the list of its items
  (\<open>json.loads\<close> hands back a dict: one item per key). \<open>JFloat\<close> is a finite float;
  \<open>json.loads\<close> also reads the literals \<open>NaN\<close>, \<open>Infinity\<close> and \<open>-Infinity\<close>, as the
  floats \<open>nan\<close>, \<open>inf\<close> and \<open>-inf\<close>.
\<close>

datatype json =
    JNull
  | JBool bool
  | JInt int
  | JFloat real
  | JNaN
  | JInfinity
  | JNegInfinity
  | JStr string
  | JArr "json list"
  | JObj "(string \<times> json) list"

text \<open>\<open>not v\<close> is \<open>\<not> truthy v\<close>.\<close>

fun truthy :: "json \<Rightarrow> bool" where
  "truthy JNull = False"
| "truthy (JBool b) = b"
| "truthy (JInt i) = (i \<noteq> 0)"
| "truthy (JFloat r) = (r \<noteq> 0)"
| "truthy JNaN = True"
| "truthy JInfinity = True"
| "truthy JNegInfinity = True"
| "truthy (JStr s) = (s \<noteq> [])"
| "truthy (JArr vs) = (vs \<noteq> [])"
| "truthy (JObj kvs) = (kvs \<noteq> [])"

text \<open>\<open>d.get(k, dflt)\<close> on a dict.\<close>

definition dict_get :: "(string \<times> json) list \<Rightarrow> string \<Rightarrow> json \<Rightarrow> json" where
  "dict_get d k dflt = (case map_of d k of None \<Rightarrow> dflt | Some v \<Rightarrow> v)"

fun type_name :: "json \<Rightarrow> string" where
  "type_name JNull = ''NoneType''"
| "type_name (JBool b) = ''bool''"
| "type_name (JInt i) = ''int''"
| "type_name (JFloat r) = ''float''"
| "type_name JNaN = ''float''"
| "type_name JInfinity = ''float''"
| "type_name JNegInfinity = ''float''"
| "type_name (JStr s) = ''str''"
| "type_name (JArr vs) = ''list''"
| "type_name (JObj kvs) = ''dict''"

definition quoted :: "string \<Rightarrow> string" where
  "quoted s = [CHR 0x27] @ s @ [CHR 0x27]"

text \<open>The text of the AttributeError that \<open>v.get\<close> raises when \<open>v\<close> is no dict.\<close>

definition no_attribute_get :: "json \<Rightarrow> string" where
  "no_attribute_get v = quoted (type_name v) @ '' object has no attribute '' @ quoted ''get''"

text \<open>
  An exception is its class and its message; \<open>Exception\<close> also stands for the classes
  that code outside this file raises. The handlers only ever use \<open>str(e)\<close>.
\<close>

datatype exn =
    ValueError string
  | AttributeError string
  | Exception string

fun str_exn :: "exn \<Rightarrow> string" where
  "str_exn (ValueError m) = m"
| "str_exn (AttributeError m) = m"
| "str_exn (Exception m) = m"

text \<open>
  What \<open>json.loads\<close> does with a text: it returns a value, or it raises
  JSONDecodeError, or it raises another exception (RecursionError on a text nested too
  deeply, a plain ValueError on an integer of too many digits). JSONDecodeError is kept
  apart because line 530 catches that class only: \<open>LoadsRaises\<close> never holds it.
\<close>

datatype loads_result =
    Loaded json
  | JSONDecodeError
  | LoadsRaises exn

text \<open>
  What the handler takes from Python and its library, and this file does not define:
  \<open>json.loads\<close>, the text an f-string gives a value that is not a string, and \<open>repr\<close>
  of a string (the text of a KeyError).
\<close>

record pylib =
  json_loads :: "string \<Rightarrow> loads_result"
  format_value :: "json \<Rightarrow> string"
  repr_str :: "string \<Rightarrow> string"

definition py_str :: "pylib \<Rightarrow> json \<Rightarrow> string" where
  "py_str py v = (case v of JStr s \<Rightarrow> s | _ \<Rightarrow> format_value py v)"

text \<open>
  \<open>f"{client_address}_{source_type}"\<close>; \<open>addr\<close> is the text of \<open>client_address\<close>.
\<close>

definition make_buffer_key :: "pylib \<Rightarrow> string \<Rightarrow> json \<Rightarrow> string" where
  "make_buffer_key py addr src = addr @ ''_'' @ py_str py src"

text \<open>
  The state one connection's handler works on: its two local variables, the global
  dict \<open>audio_buffers\<close>, and what it has done so far: the messages sent to the client
  and the tasks created, each a call \<open>process_audio_chunk(websocket, source, chunk)\<close>.
  A \<open>send\<close> is taken to succeed while the connection is open.
\<close>

record session =
  source_type :: json
  buffer_key :: "string option"
  audio_buffers :: "string \<rightharpoonup> bytes"
  sent :: "json list"
  tasks :: "(json \<times> bytes) list"

datatype ws_message = Text string | Binary bytes

definition send :: "json \<Rightarrow> session \<Rightarrow> session" where
  "send m s = s\<lparr>sent := sent s @ [m]\<rparr>"

text \<open>\<open>if buffer_key and buffer_key in audio_buffers: del audio_buffers[buffer_key]\<close>\<close>

definition delete_buffer :: "session \<Rightarrow> session" where
  "delete_buffer s =
     (case buffer_key s of
        None \<Rightarrow> s
      | Some key \<Rightarrow>
          if key \<noteq> [] \<and> audio_buffers s key \<noteq> None
          then s\<lparr>audio_buffers := (audio_buffers s)(key := None)\<rparr>
          else s)"

text \<open>
  Lines 463-492: a text message after \<open>json.loads\<close> returned \<open>data\<close>. A value that is
  no dict has no \<open>get\<close>: the AttributeError is caught at line 557, which reports it.
\<close>

definition handle_control :: "pylib \<Rightarrow> string \<Rightarrow> json \<Rightarrow> session \<Rightarrow> session" where
  "handle_control py addr data s =
     (case data of
        JObj d \<Rightarrow>
          (let msg_type = dict_get d ''type'' JNull in
           if msg_type = JStr ''start'' then
             (let src = dict_get d ''source'' (JStr ''microphone'');
                  key = make_buffer_key py addr src
              in send (JObj [(''type'', JStr ''started''), (''source'', src)])
                   (s\<lparr>source_type := src, buffer_key := Some key,
                      audio_buffers := (audio_buffers s)(key \<mapsto> [])\<rparr>))
           else if msg_type = JStr ''stop'' then
             send (JObj [(''type'', JStr ''stopped'')]) (delete_buffer s)
           else if msg_type = JStr ''ping'' then
             send (JObj [(''type'', JStr ''pong'')]) s
           else s)
      | _ \<Rightarrow>
          send (JObj [(''type'', JStr ''error''), (''message'', JStr (no_attribute_get data))]) s)"

text \<open>
  Lines 495-528: a binary message. \<open>audio_buffers[buffer_key]\<close> raises KeyError when a
  \<open>stop\<close> has deleted the buffer; line 557 catches it and reports it.
\<close>

definition handle_binary :: "pylib \<Rightarrow> string \<Rightarrow> bytes \<Rightarrow> session \<Rightarrow> session" where
  "handle_binary py addr message s =
     (let s1 =
        (if \<not> truthy (source_type s) then
           (let key = make_buffer_key py addr (JStr ''microphone'') in
            s\<lparr>source_type := JStr ''microphone'', buffer_key := Some key,
              audio_buffers :=
                (if audio_buffers s key = None then (audio_buffers s)(key \<mapsto> [])
                 else audio_buffers s)\<rparr>)
         else s)
      in case buffer_key s1 of
           None \<Rightarrow> s1
         | Some key \<Rightarrow>
             if key = [] then s1
             else
               (case audio_buffers s1 key of
                  None \<Rightarrow>
                    send (JObj [(''type'', JStr ''error''), (''message'', JStr (repr_str py key))]) s1
                | Some buf \<Rightarrow>
                    (let (buf', chunks) = feed buf message in
                     s1\<lparr>audio_buffers := (audio_buffers s1)(key \<mapsto> buf'),
                        tasks := tasks s1 @ map (\<lambda>chunk. (source_type s1, chunk)) chunks\<rparr>)))"

text \<open>
  Lines 459-565, one message. When \<open>json.loads\<close> at line 463 raises JSONDecodeError,
  the handler at line 530 acts on \<open>bytes\<close> only, so for a text it does nothing. (It never
  sees \<open>bytes\<close>: \<open>json.loads\<close> is called for texts only.) Any other exception that
  \<open>json.loads\<close> raises is caught at line 557, which reports it to the client.
\<close>

definition handle_message :: "pylib \<Rightarrow> string \<Rightarrow> ws_message \<Rightarrow> session \<Rightarrow> session" where
  "handle_message py addr msg s =
     (case msg of
        Text t \<Rightarrow>
          (case json_loads py t of
             JSONDecodeError \<Rightarrow> s
           | LoadsRaises x \<Rightarrow>
               send (JObj [(''type'', JStr ''error''), (''message'', JStr (str_exn x))]) s
           | Loaded data \<Rightarrow> handle_control py addr data s)
      | Binary b \<Rightarrow> handle_binary py addr b s)"

definition MODEL_NAME :: string where
  "MODEL_NAME = ''small.en''"

text \<open>Lines 449-457: the welcome message and the two local variables.\<close>

definition open_session :: "(string \<rightharpoonup> bytes) \<Rightarrow> session" where
  "open_session buffers =
     send (JObj [(''type'', JStr ''connected''),
                 (''message'', JStr ''WebSocket connection established''),
                 (''model'', JStr MODEL_NAME),
                 (''streaming'', JBool True)])
       \<lparr>source_type = JNull, buffer_key = None, audio_buffers = buffers, sent = [], tasks = []\<rparr>"

text \<open>The \<open>async for\<close> loop over the messages the client sends until it disconnects.\<close>

definition message_loop :: "pylib \<Rightarrow> string \<Rightarrow> ws_message list \<Rightarrow> session \<Rightarrow> session" where
  "message_loop py addr messages s = fold (handle_message py addr) messages s"

text \<open>
  \<open>handle_websocket\<close> from the first line to the \<open>finally\<close> clause (lines 571-574),
  for a client that sends \<open>messages\<close> and then disconnects.
\<close>

definition handle_websocket :: "pylib \<Rightarrow> string \<Rightarrow> (string \<rightharpoonup> bytes) \<Rightarrow> ws_message list \<Rightarrow> session" where
  "handle_websocket py addr buffers messages =
     delete_buffer (message_loop py addr messages (open_session buffers))"

section \<open>Transcription\<close>

subsection \<open>Strings\<close>

text \<open>
  A Python \<open>str\<close> is a list of characters; a character here has a code point below
  256. \<open>isspace\<close>, \<open>lower\<close> and \<open>strip\<close> are Python's on these code points.
\<close>

definition isspace :: "char \<Rightarrow> bool" where
  "isspace c =
     (let n = (of_char c :: nat)
      in (9 \<le> n \<and> n \<le> 13) \<or> (28 \<le> n \<and> n \<le> 32) \<or> n = 133 \<or> n = 160)"

definition py_strip :: "string \<Rightarrow> string" where
  "py_strip s = rev (dropWhile isspace (rev (dropWhile isspace s)))"

definition lower_char :: "char \<Rightarrow> char" where
  "lower_char c =
     (let n = (of_char c :: nat)
      in if (65 \<le> n \<and> n \<le> 90) \<or> (192 \<le> n \<and> n \<le> 214) \<or> (216 \<le> n \<and> n \<le> 222)
         then char_of (n + 32) else c)"

definition py_lower :: "string \<Rightarrow> string" where
  "py_lower s = map lower_char s"

text \<open>\<open>sep.join(parts)\<close>\<close>

fun py_join :: "string \<Rightarrow> string list \<Rightarrow> string" where
  "py_join sep [] = []"
| "py_join sep [p] = p"
| "py_join sep (p # q # ps) = p @ sep @ py_join sep (q # ps)"

text \<open>\<open>str(n)\<close> for an \<open>int\<close> that is not negative.\<close>

fun show_nat :: "nat \<Rightarrow> string" where
  "show_nat n =
     (if n < 10 then [char_of (48 + n)]
      else show_nat (n div 10) @ [char_of (48 + n mod 10)])"

declare show_nat.simps [simp del]

subsection \<open>The world outside\<close>

text \<open>
  A file handed to the model: the WAV file that \<open>pcm_bytes_to_wav\<close> writes with the
  \<open>wave\<close> module (mono, two bytes per sample, its frame rate and its frames, after a
  header of 44 bytes), or whatever ffmpeg wrote.
\<close>

datatype audio_file = PcmWav nat bytes | FfmpegWav bytes

fun file_size :: "audio_file \<Rightarrow> nat" where
  "file_size (PcmWav rate frames) = 44 + length frames"
| "file_size (FfmpegWav content) = length content"

text \<open>
  A segment that faster-whisper yields: its text and, when the attribute is there,
  \<open>no_speech_prob\<close>.
\<close>

record segment =
  seg_text :: string
  no_speech_prob :: "real option"

text \<open>
  \<open>subprocess.run\<close> on ffmpeg: it raises (ffmpeg is missing, or the timeout of 30
  seconds expires), or ffmpeg exits with a return code, its stderr, and the output file
  when there is one.
\<close>

datatype ffmpeg_result =
    FfmpegRaises exn
  | FfmpegExit int string "bytes option"

text \<open>
  \<open>model.transcribe\<close>: it raises, or it returns the segments, which it yields one by
  one and may end with an exception, and \<open>info.language\<close> when \<open>info\<close> has it.
\<close>

datatype whisper_result =
    TranscribeRaises exn
  | Transcribed "segment list" "exn option" "string option"

text \<open>
  What is outside this file: ffmpeg, the model, \<open>wave.open\<close> on a file that ffmpeg
  wrote (the message of its error, when it fails), the name of the temporary WAV file,
  and whether the request's thread misses the deadline of \<open>future.result(timeout=30)\<close>.
  The file system is taken to work: temporary files are created, written and removed.
  The model is taken to be loaded, as at server start.
\<close>

record env =
  ffmpeg :: "bytes \<Rightarrow> ffmpeg_result"
  whisper :: "audio_file \<Rightarrow> whisper_result"
  wave_open_error :: "bytes \<Rightarrow> string option"
  wav_path :: string
  deadline_missed :: bool

subsection \<open>From bytes to a WAV file\<close>

text \<open>
  \<open>pcm_bytes_to_wav\<close>, lines 102-190, with \<open>sample_rate = SAMPLE_RATE\<close>. The checks after
  the file is written read back what was just written, and pass.
\<close>

definition pcm_bytes_to_wav :: "bytes \<Rightarrow> exn + audio_file" where
  "pcm_bytes_to_wav pcm_bytes =
     (let min_bytes = 2000 in
      if length pcm_bytes < min_bytes then
        Inl (ValueError (''Audio data too small: '' @ show_nat (length pcm_bytes) @
                         '' bytes (minimum: '' @ show_nat min_bytes @ '')''))
      else
        (let pcm = (if length pcm_bytes mod 2 \<noteq> 0 then butlast pcm_bytes else pcm_bytes);
             num_samples = length pcm div 2
         in if num_samples = 0 then Inl (ValueError ''No audio samples in PCM data'')
            else Inr (PcmWav SAMPLE_RATE pcm)))"

text \<open>\<open>convert_webm_to_wav\<close>, lines 192-252.\<close>

definition convert_webm_to_wav :: "env \<Rightarrow> bytes \<Rightarrow> exn + audio_file" where
  "convert_webm_to_wav e webm_data =
     (case ffmpeg e webm_data of
        FfmpegRaises x \<Rightarrow> Inl x
      | FfmpegExit returncode stderr out \<Rightarrow>
          if returncode \<noteq> 0 then
            Inl (Exception (''FFmpeg conversion failed: '' @ take 200 stderr))
          else
            (case out of
               None \<Rightarrow> Inl (Exception ''FFmpeg conversion failed: empty output file'')
             | Some content \<Rightarrow>
                 if content = [] then Inl (Exception ''FFmpeg conversion failed: empty output file'')
                 else Inr (FfmpegWav content)))"

subsection \<open>The worker: \<open>transcribe_audio_chunk\<close>\<close>

definition hallucination_patterns :: "string list" where
  "hallucination_patterns =
     [''thank you'', ''thanks'', ''subscribe'', ''please subscribe'',
      ''like and subscribe'', ''thank you for watching'',
      ''thanks for watching'', ''please like and subscribe'']"

text \<open>
  Lines 308-327: the loop over the segments, with \<open>text_parts\<close> as accumulator.
  \<open>pattern in segment_lower\<close> is \<open>sublist pattern segment_lower\<close>.
\<close>

fun collect_text_parts :: "segment list \<Rightarrow> string list \<Rightarrow> string list" where
  "collect_text_parts [] text_parts = text_parts"
| "collect_text_parts (seg # segments) text_parts =
     (let segment_text = py_strip (seg_text seg) in
      if segment_text \<noteq> [] \<and> length segment_text \<ge> 2 then
        (let segment_lower = py_lower segment_text in
         if (case no_speech_prob seg of None \<Rightarrow> False | Some p \<Rightarrow> p > 0.5)
         then collect_text_parts segments text_parts
         else if \<not> list_ex (\<lambda>pattern. sublist pattern segment_lower) hallucination_patterns
         then collect_text_parts segments (text_parts @ [segment_text])
         else collect_text_parts segments text_parts)
      else collect_text_parts segments text_parts)"

text \<open>Line 329.\<close>

definition full_text_of :: "segment list \<Rightarrow> string" where
  "full_text_of segments = py_strip (py_join '' '' (collect_text_parts segments []))"

text \<open>The dict that \<open>transcribe_audio_chunk\<close> returns when there is text.\<close>

record transcription =
  result_text :: string
  result_language :: string

text \<open>
  Lines 254-354. The result is what the function raises (\<open>Inl\<close>) or returns
  (\<open>Inr None\<close> is Python's \<open>None\<close>), and the files on which the model was invoked.
\<close>

definition transcribe_audio_chunk ::
    "env \<Rightarrow> bytes \<Rightarrow> bool \<Rightarrow> (exn + transcription option) \<times> audio_file list" where
  "transcribe_audio_chunk e audio_data is_webm =
     (case (if is_webm then convert_webm_to_wav e audio_data else pcm_bytes_to_wav audio_data) of
        Inl x \<Rightarrow> (Inl x, [])
      | Inr wav \<Rightarrow>
          if file_size wav < 44 then
            (Inl (ValueError (''WAV file too small (likely corrupted): '' @ wav_path e @
                              '', size: '' @ show_nat (file_size wav) @ '' bytes'')), [])
          else
            (case whisper e wav of
               TranscribeRaises x \<Rightarrow>
                 (let error_msg = str_exn x in
                  if sublist ''Invalid data'' error_msg \<or> sublist ''Errno'' error_msg then
                    (case (case wav of PcmWav rate frames \<Rightarrow> None
                                     | FfmpegWav content \<Rightarrow> wave_open_error e content) of
                       Some wav_error \<Rightarrow>
                         (Inl (ValueError (''Invalid WAV file format: '' @ wav_error)), [wav])
                     | None \<Rightarrow> (Inl x, [wav]))
                  else (Inl x, [wav]))
             | Transcribed segments raised language \<Rightarrow>
                 (case raised of
                    Some x \<Rightarrow> (Inl x, [wav])
                  | None \<Rightarrow>
                      (let full_text = full_text_of segments in
                       if full_text \<noteq> [] then
                         (Inr (Some \<lparr>result_text = full_text,
                                     result_language = (case language of Some l \<Rightarrow> l | None \<Rightarrow> ''en'')\<rparr>),
                          [wav])
                       else (Inr None, [wav])))))"

subsection \<open>The one-shot request\<close>

text \<open>\<open>transcribe_audio_request\<close>, lines 356-393: the dict it returns.\<close>

definition transcribe_audio_request :: "env \<Rightarrow> bytes \<Rightarrow> bool \<Rightarrow> json \<times> audio_file list" where
  "transcribe_audio_request e audio_data is_webm =
     (let min_size = (if \<not> is_webm then 2000 else 1000 :: nat) in
      if length audio_data < min_size then
        (JObj [(''success'', JBool True), (''text'', JStr ''''), (''language'', JStr ''en'')], [])
      else
        (case transcribe_audio_chunk e audio_data is_webm of
           (Inl x, calls) \<Rightarrow>
             (JObj [(''success'', JBool False), (''error'', JStr (str_exn x)), (''text'', JStr '''')],
              calls)
         | (Inr None, calls) \<Rightarrow>
             (JObj [(''success'', JBool True), (''text'', JStr ''''), (''language'', JStr ''en'')],
              calls)
         | (Inr (Some result), calls) \<Rightarrow>
             (JObj [(''success'', JBool True),
                    (''text'', JStr (py_strip (result_text result))),
                    (''language'', JStr (result_language result))],
              calls)))"

text \<open>
  An HTTP request to \<open>/transcribe\<close>: the Content-Type header (\<open>''''\<close> when absent), the
  number in the Content-Length header (0 when absent), and the bytes that
  \<open>rfile.read\<close> finds.
\<close>

record request =
  content_type :: string
  content_length :: nat
  rfile :: bytes

datatype http_response = SendError nat string | SendJson nat json

definition WEBM_MAGIC :: bytes where
  "WEBM_MAGIC = [0x1A, 0x45, 0xDF, 0xA3]"

text \<open>
  \<open>WhisperHTTPHandler.handle_transcribe\<close>, lines 607-664. \<open>future.result\<close> raises only
  when the deadline is missed: \<open>transcribe_audio_request\<close> catches what it raises itself.
  The message of that TimeoutError is empty.
\<close>

definition handle_transcribe :: "env \<Rightarrow> request \<Rightarrow> http_response \<times> audio_file list" where
  "handle_transcribe e req =
     (if content_length req = 0 then (SendError 400 ''No audio data provided'', [])
      else
        (let audio_data = take (content_length req) (rfile req);
             is_webm = (length audio_data \<ge> 4 \<and>
                        (take 4 audio_data = WEBM_MAGIC \<or>
                         sublist ''webm'' (py_lower (content_type req))));
             (result, calls) = transcribe_audio_request e audio_data is_webm
         in if deadline_missed e then
              (SendJson 500 (JObj [(''success'', JBool False), (''error'', JStr ''''), (''text'', JStr '''')]),
               calls)
            else (SendJson 200 result, calls)))"

subsection \<open>A chunk of a stream\<close>

text \<open>
  \<open>process_audio_chunk\<close>, lines 395-440: the messages it sends. When
  \<open>transcribe_audio_chunk\<close> returns \<open>None\<close>, \<open>result.get\<close> at line 407 raises
  AttributeError, and the handler at line 430 reports it.
\<close>

definition process_audio_chunk :: "env \<Rightarrow> json \<Rightarrow> bytes \<Rightarrow> json list" where
  "process_audio_chunk e source audio_chunk =
     (case fst (transcribe_audio_chunk e audio_chunk False) of
        Inl x \<Rightarrow>
          [JObj [(''type'', JStr ''error''), (''source'', source), (''message'', JStr (str_exn x))]]
      | Inr None \<Rightarrow>
          [JObj [(''type'', JStr ''error''), (''source'', source),
                 (''message'', JStr (str_exn (AttributeError (no_attribute_get JNull))))]]
      | Inr (Some result) \<Rightarrow>
          (let text = (if result_text result \<noteq> [] then py_strip (result_text result) else [])
           in if text \<noteq> [] then
                [JObj [(''type'', JStr ''transcription''), (''source'', source),
                       (''text'', JStr text), (''language'', JStr (result_language result))]]
              else
                [JObj [(''type'', JStr ''silence''), (''source'', source)]]))"

section \<open>The specification's words, and the statements that hold instead\<close>

text \<open>
  The specification's post-processing rule, as it words it: a segment is dropped when
  its no-speech confidence exceeds 0.5 or its trimmed text contains, ignoring case, a
  phrase of the denylist; the texts of the others are joined with one space and trimmed.
\<close>

definition spec_dropped :: "segment \<Rightarrow> bool" where
  "spec_dropped seg =
     ((case no_speech_prob seg of None \<Rightarrow> False | Some p \<Rightarrow> p > 0.5) \<or>
      list_ex (\<lambda>pattern. sublist pattern (py_lower (py_strip (seg_text seg)))) hallucination_patterns)"

definition spec_full_text :: "segment list \<Rightarrow> string" where
  "spec_full_text segments =
     py_strip (py_join '' '' (map (\<lambda>seg. py_strip (seg_text seg))
                                  (filter (\<lambda>seg. \<not> spec_dropped seg) segments)))"

text \<open>What the loop drops: also a segment whose trimmed text has fewer than two characters.\<close>

definition dropped :: "segment \<Rightarrow> bool" where
  "dropped seg =
     (length (py_strip (seg_text seg)) < 2 \<or>
      (case no_speech_prob seg of None \<Rightarrow> False | Some p \<Rightarrow> p > 0.5) \<or>
      list_ex (\<lambda>pattern. sublist pattern (py_lower (py_strip (seg_text seg)))) hallucination_patterns)"

text \<open>
  The specification's response body: an object with a boolean \<open>success\<close>, a string
  \<open>text\<close>, a string \<open>language\<close>, and \<open>error\<close>, a string when it is there.
\<close>

definition spec_envelope :: "json \<Rightarrow> bool" where
  "spec_envelope body =
     (case body of
        JObj d \<Rightarrow>
          (case map_of d ''success'' of Some (JBool b) \<Rightarrow> True | _ \<Rightarrow> False) \<and>
          (case map_of d ''text'' of Some (JStr t) \<Rightarrow> True | _ \<Rightarrow> False) \<and>
          (case map_of d ''language'' of Some (JStr l) \<Rightarrow> True | _ \<Rightarrow> False) \<and>
          (case map_of d ''error'' of None \<Rightarrow> True | Some (JStr m) \<Rightarrow> True | _ \<Rightarrow> False)
      | _ \<Rightarrow> False)"

text \<open>
  The body the code sends: \<open>text\<close> always; with \<open>success\<close> true a \<open>language\<close> and no
  \<open>error\<close>, with \<open>success\<close> false an \<open>error\<close> and no \<open>language\<close>.
\<close>

definition response_envelope :: "json \<Rightarrow> bool" where
  "response_envelope body =
     (case body of
        JObj d \<Rightarrow>
          (case map_of d ''text'' of Some (JStr t) \<Rightarrow> True | _ \<Rightarrow> False) \<and>
          (case map_of d ''success'' of
             Some (JBool b) \<Rightarrow>
               if b then (case map_of d ''language'' of Some (JStr l) \<Rightarrow> True | _ \<Rightarrow> False) \<and>
                         map_of d ''error'' = None
               else (case map_of d ''error'' of Some (JStr m) \<Rightarrow> True | _ \<Rightarrow> False) \<and>
                    map_of d ''language'' = None
           | _ \<Rightarrow> False)
      | _ \<Rightarrow> False)"

text \<open>
  The specification's \<open>valid JSON\<close>: a text of the grammar of RFC 8259, white space
  around one value. The scanners give back what is left of the text after what they
  read, or \<open>None\<close>; the fuel bounds the nesting and is never the reason for a \<open>None\<close>
  in \<open>spec_valid_json\<close>, where no call chain is longer than twice the text.
\<close>

definition json_ws :: "char \<Rightarrow> bool" where
  "json_ws c = (c = CHR 0x20 \<or> c = CHR 0x09 \<or> c = CHR 0x0A \<or> c = CHR 0x0D)"

definition skip_ws :: "string \<Rightarrow> string" where
  "skip_ws s = dropWhile json_ws s"

definition is_digit :: "char \<Rightarrow> bool" where
  "is_digit c = (let n = (of_char c :: nat) in 48 \<le> n \<and> n \<le> 57)"

definition is_hex :: "char \<Rightarrow> bool" where
  "is_hex c =
     (let n = (of_char c :: nat)
      in (48 \<le> n \<and> n \<le> 57) \<or> (65 \<le> n \<and> n \<le> 70) \<or> (97 \<le> n \<and> n \<le> 102))"

text \<open>
  A string after its opening quotation mark. The state is 0 in plain text, 1 after a
  backslash, and one more than the number of hexadecimal digits still due after a
  backslash and the letter u.
\<close>

fun scan_string :: "nat \<Rightarrow> string \<Rightarrow> string option" where
  "scan_string st [] = None"
| "scan_string st (c # cs) =
     (if st = 0 then
        (if c = CHR 0x22 then Some cs
         else if c = CHR 0x5C then scan_string 1 cs
         else if (of_char c :: nat) < 32 then None
         else scan_string 0 cs)
      else if st = 1 then
        (if c = CHR 0x22 \<or> c = CHR 0x5C \<or> c = CHR ''/'' \<or> c = CHR ''b'' \<or> c = CHR ''f'' \<or>
            c = CHR ''n'' \<or> c = CHR ''r'' \<or> c = CHR ''t''
         then scan_string 0 cs
         else if c = CHR ''u'' then scan_string 5 cs
         else None)
      else
        (if is_hex c then scan_string (if st = 2 then 0 else st - 1) cs else None))"

text \<open>One digit or more.\<close>

definition scan_digits :: "string \<Rightarrow> string option" where
  "scan_digits s =
     (case s of
        [] \<Rightarrow> None
      | c # cs \<Rightarrow> if is_digit c then Some (dropWhile is_digit cs) else None)"

text \<open>A number: an optional minus, the integer part, an optional fraction, an optional exponent.\<close>

definition scan_number :: "string \<Rightarrow> string option" where
  "scan_number s =
     (case (case s of [] \<Rightarrow> [] | c # cs \<Rightarrow> if c = CHR ''-'' then cs else s) of
        [] \<Rightarrow> None
      | c # cs \<Rightarrow>
          (case (if c = CHR ''0'' then Some cs
                 else if is_digit c then Some (dropWhile is_digit cs)
                 else None) of
             None \<Rightarrow> None
           | Some s2 \<Rightarrow>
               (case (case s2 of
                        [] \<Rightarrow> Some []
                      | d # ds \<Rightarrow> if d = CHR ''.'' then scan_digits ds else Some s2) of
                  None \<Rightarrow> None
                | Some s3 \<Rightarrow>
                    (case s3 of
                       [] \<Rightarrow> Some []
                     | e # es \<Rightarrow>
                         if e = CHR ''e'' \<or> e = CHR ''E'' then
                           (case es of
                              [] \<Rightarrow> None
                            | g # gs \<Rightarrow>
                                if g = CHR ''+'' \<or> g = CHR ''-'' then scan_digits gs
                                else scan_digits es)
                         else Some s3))))"

text \<open>
  A value; the values of an array after its opening bracket, up to the closing one; the
  members of an object after its opening brace, up to the closing one.
\<close>

fun scan_value :: "nat \<Rightarrow> string \<Rightarrow> string option"
and scan_elements :: "nat \<Rightarrow> string \<Rightarrow> string option"
and scan_members :: "nat \<Rightarrow> string \<Rightarrow> string option" where
  "scan_value 0 s = None"
| "scan_value (Suc n) s =
     (case s of
        [] \<Rightarrow> None
      | c # cs \<Rightarrow>
          if c = CHR 0x22 then scan_string 0 cs
          else if c = CHR ''['' then
            (case skip_ws cs of
               [] \<Rightarrow> None
             | d # ds \<Rightarrow> if d = CHR '']'' then Some ds else scan_elements n (d # ds))
          else if c = CHR ''{'' then
            (case skip_ws cs of
               [] \<Rightarrow> None
             | d # ds \<Rightarrow> if d = CHR ''}'' then Some ds else scan_members n (d # ds))
          else if prefix ''true'' s then Some (drop 4 s)
          else if prefix ''false'' s then Some (drop 5 s)
          else if prefix ''null'' s then Some (drop 4 s)
          else scan_number s)"
| "scan_elements 0 s = None"
| "scan_elements (Suc n) s =
     (case scan_value n s of
        None \<Rightarrow> None
      | Some r \<Rightarrow>
          (case skip_ws r of
             [] \<Rightarrow> None
           | d # ds \<Rightarrow>
               if d = CHR '','' then scan_elements n (skip_ws ds)
               else if d = CHR '']'' then Some ds
               else None))"
| "scan_members 0 s = None"
| "scan_members (Suc n) s =
     (case s of
        [] \<Rightarrow> None
      | q # cs \<Rightarrow>
          if q \<noteq> CHR 0x22 then None
          else
            (case scan_string 0 cs of
               None \<Rightarrow> None
             | Some r \<Rightarrow>
                 (case skip_ws r of
                    [] \<Rightarrow> None
                  | d # ds \<Rightarrow>
                      if d \<noteq> CHR '':'' then None
                      else
                        (case scan_value n (skip_ws ds) of
                           None \<Rightarrow> None
                         | Some r2 \<Rightarrow>
                             (case skip_ws r2 of
                                [] \<Rightarrow> None
                              | g # gs \<Rightarrow>
                                  if g = CHR '','' then scan_members n (skip_ws gs)
                                  else if g = CHR ''}'' then Some gs
                                  else None)))))"

definition spec_valid_json :: "string \<Rightarrow> bool" where
  "spec_valid_json t =
     (case scan_value (2 * length t + 2) (skip_ws t) of
        None \<Rightarrow> False
      | Some rest \<Rightarrow> skip_ws rest = [])"

section \<open>Concrete surroundings for the examples\<close>

text \<open>
  \<open>json.loads\<close> on the texts of the examples: two control messages; a \<open>start\<close> message
  with the literal \<open>NaN\<close>, which is not JSON and which \<open>json.loads\<close> reads; 1100 opening
  brackets, on which it raises RecursionError; every other text of the examples is cut
  short, and it raises JSONDecodeError.
\<close>

definition example_loads :: "string \<Rightarrow> loads_result" where
  \<open>example_loads t =
     (if t = ''{"type":"start","source":"microphone"}''
      then Loaded (JObj [(''type'', JStr ''start''), (''source'', JStr ''microphone'')])
      else if t = ''{"type":"start","source":"system"}''
      then Loaded (JObj [(''type'', JStr ''start''), (''source'', JStr ''system'')])
      else if t = ''{"type":"start","gain":NaN}''
      then Loaded (JObj [(''type'', JStr ''start''), (''gain'', JNaN)])
      else if t = replicate 1100 (CHR ''['')
      then LoadsRaises (Exception
             ''maximum recursion depth exceeded while decoding a JSON array from a unicode string'')
      else JSONDecodeError)\<close>

definition example_py :: pylib where
  "example_py = \<lparr>json_loads = example_loads, format_value = (\<lambda>v. []), repr_str = (\<lambda>k. k)\<rparr>"

text \<open>A model that hears nothing: it yields no segment.\<close>

definition silent_env :: env where
  "silent_env =
     \<lparr>ffmpeg = (\<lambda>data. FfmpegRaises (Exception ''ffmpeg not found'')),
      whisper = (\<lambda>file. Transcribed [] None (Some ''en'')),
      wave_open_error = (\<lambda>content. None),
      wav_path = ''/tmp/whisper_stream_0.wav'',
      deadline_missed = False\<rparr>"

text \<open>A model whose \<open>transcribe\<close> raises.\<close>

definition raising_env :: env where
  "raising_env =
     \<lparr>ffmpeg = (\<lambda>data. FfmpegRaises (Exception ''ffmpeg not found'')),
      whisper = (\<lambda>file. TranscribeRaises (Exception ''model failure'')),
      wave_open_error = (\<lambda>content. None),
      wav_path = ''/tmp/whisper_stream_0.wav'',
      deadline_missed = False\<rparr>"

section \<open>Properties of the chunker\<close>

lemma length_cases:
  obtains (small) "length (buf::bytes) < MIN_CHUNK_SIZE"
  | (exact) "length buf = MIN_CHUNK_SIZE"
  | (more) "length buf > MIN_CHUNK_SIZE"
  by linarith

lemma extract_chunks_small:
  "length buf < MIN_CHUNK_SIZE \<Longrightarrow> extract_chunks buf = (buf, [])"
  by (subst extract_chunks.simps) simp

lemma extract_chunks_exact:
  "length buf = MIN_CHUNK_SIZE \<Longrightarrow> extract_chunks buf = ([], [buf])"
  by (subst extract_chunks.simps, subst extract_chunks.simps) (simp add: MIN_CHUNK_SIZE_def)

lemma extract_chunks_more:
  "length buf > MIN_CHUNK_SIZE \<Longrightarrow>
   extract_chunks buf =
     (fst (extract_chunks (drop (MIN_CHUNK_SIZE - OVERLAP_SIZE) buf)),
      take MIN_CHUNK_SIZE buf # snd (extract_chunks (drop (MIN_CHUNK_SIZE - OVERLAP_SIZE) buf)))"
  by (subst extract_chunks.simps) (simp add: case_prod_beta Let_def)

lemma extract_chunks_rest_length:
  "length (fst (extract_chunks buf)) < MIN_CHUNK_SIZE"
proof (induction buf rule: extract_chunks.induct)
  case (1 buf)
  show ?case
  proof (cases buf rule: length_cases)
    case small
    then show ?thesis by (simp add: extract_chunks_small)
  next
    case exact
    then show ?thesis by (simp add: extract_chunks_exact MIN_CHUNK_SIZE_def)
  next
    case more
    with "1.IH" [OF _ refl refl] show ?thesis
      by (simp add: extract_chunks_more)
  qed
qed

lemma extract_chunks_chunk_length:
  "list_all (\<lambda>c. length c = MIN_CHUNK_SIZE) (snd (extract_chunks buf))"
proof (induction buf rule: extract_chunks.induct)
  case (1 buf)
  show ?case
  proof (cases buf rule: length_cases)
    case small
    then show ?thesis by (simp add: extract_chunks_small)
  next
    case exact
    then show ?thesis by (simp add: extract_chunks_exact)
  next
    case more
    with "1.IH" [OF _ refl refl] show ?thesis
      by (simp add: extract_chunks_more MIN_CHUNK_SIZE_def)
  qed
qed

lemma feed_rest_length: "length (fst (feed buf message)) < MIN_CHUNK_SIZE"
  by (simp add: feed_def extract_chunks_rest_length)

lemma feed_one_chunk:
  "feed [] (replicate 49000 0) = (replicate 17000 0, [replicate 48000 0])"
  by (simp add: feed_def trim_overflow_def extract_chunks_more extract_chunks_small
      MIN_CHUNK_SIZE_def OVERLAP_SIZE_def MAX_BUFFER_SIZE_def)

lemma feed_exact_chunk:
  "feed [] (replicate 48000 0) = ([], [replicate 48000 0])"
  by (simp add: feed_def trim_overflow_def extract_chunks_exact
      MIN_CHUNK_SIZE_def MAX_BUFFER_SIZE_def)

text \<open>
  Claim C2. In the loop of a feed, while the buffer holds at least \<open>MIN_CHUNK_SIZE\<close>
  bytes, its first \<open>MIN_CHUNK_SIZE\<close> bytes are cut off as a chunk; a buffer that was
  longer goes on as its suffix from offset \<open>MIN_CHUNK_SIZE - OVERLAP_SIZE\<close>, a buffer of
  exactly that length is cleared. Every chunk of a feed has \<open>MIN_CHUNK_SIZE\<close> bytes, and
  \<open>MIN_CHUNK_SIZE + 1000\<close> bytes fed to an empty buffer give one chunk and leave
  \<open>1000 + OVERLAP_SIZE\<close> bytes.
\<close>

theorem chunk_extraction_policy:
  "(length buf < MIN_CHUNK_SIZE \<longrightarrow> extract_chunks buf = (buf, [])) \<and>
   (length buf = MIN_CHUNK_SIZE \<longrightarrow> extract_chunks buf = ([], [take MIN_CHUNK_SIZE buf])) \<and>
   (length buf > MIN_CHUNK_SIZE \<longrightarrow>
      extract_chunks buf =
        (fst (extract_chunks (drop (MIN_CHUNK_SIZE - OVERLAP_SIZE) buf)),
         take MIN_CHUNK_SIZE buf #
         snd (extract_chunks (drop (MIN_CHUNK_SIZE - OVERLAP_SIZE) buf)))) \<and>
   feed old new = extract_chunks (trim_overflow (old @ new)) \<and>
   list_all (\<lambda>c. length c = MIN_CHUNK_SIZE) (snd (feed old new)) \<and>
   (length new = MIN_CHUNK_SIZE + 1000 \<longrightarrow>
      feed [] new = (drop (MIN_CHUNK_SIZE - OVERLAP_SIZE) new, [take MIN_CHUNK_SIZE new]) \<and>
      length (take MIN_CHUNK_SIZE new) = MIN_CHUNK_SIZE \<and>
      length (fst (feed [] new)) = 1000 + OVERLAP_SIZE)"
proof -
  have scenario: "feed [] new = (drop (MIN_CHUNK_SIZE - OVERLAP_SIZE) new, [take MIN_CHUNK_SIZE new]) \<and>
      length (take MIN_CHUNK_SIZE new) = MIN_CHUNK_SIZE \<and>
      length (fst (feed [] new)) = 1000 + OVERLAP_SIZE"
    if "length new = MIN_CHUNK_SIZE + 1000"
  proof -
    have "trim_overflow new = new"
      using that by (simp add: trim_overflow_def MIN_CHUNK_SIZE_def MAX_BUFFER_SIZE_def)
    moreover have "extract_chunks (drop (MIN_CHUNK_SIZE - OVERLAP_SIZE) new) =
        (drop (MIN_CHUNK_SIZE - OVERLAP_SIZE) new, [])"
      using that by (intro extract_chunks_small) (simp add: MIN_CHUNK_SIZE_def OVERLAP_SIZE_def)
    ultimately show ?thesis
      using that by (simp add: feed_def extract_chunks_more MIN_CHUNK_SIZE_def OVERLAP_SIZE_def)
  qed
  have small: "length buf < MIN_CHUNK_SIZE \<longrightarrow> extract_chunks buf = (buf, [])"
    by (simp add: extract_chunks_small)
  have exact: "length buf = MIN_CHUNK_SIZE \<longrightarrow>
      extract_chunks buf = ([], [take MIN_CHUNK_SIZE buf])"
    by (simp add: extract_chunks_exact)
  have more: "length buf > MIN_CHUNK_SIZE \<longrightarrow>
      extract_chunks buf =
        (fst (extract_chunks (drop (MIN_CHUNK_SIZE - OVERLAP_SIZE) buf)),
         take MIN_CHUNK_SIZE buf #
         snd (extract_chunks (drop (MIN_CHUNK_SIZE - OVERLAP_SIZE) buf)))"
    by (simp add: extract_chunks_more)
  have sizes: "list_all (\<lambda>c. length c = MIN_CHUNK_SIZE) (snd (feed old new))"
    unfolding feed_def by (rule extract_chunks_chunk_length)
  from small exact more sizes scenario show ?thesis
    unfolding feed_def [of old new] by blast
qed

theorem chunk_extraction_policy_witness:
  "length (replicate 10 (0::byte)) < MIN_CHUNK_SIZE \<and>
   extract_chunks (replicate 10 0) = (replicate 10 0, []) \<and>
   length (replicate 48000 (0::byte)) = MIN_CHUNK_SIZE \<and>
   extract_chunks (replicate 48000 0) = ([], [replicate 48000 0]) \<and>
   length (replicate 49000 (0::byte)) > MIN_CHUNK_SIZE \<and>
   length (replicate 49000 (0::byte)) = MIN_CHUNK_SIZE + 1000 \<and>
   feed [] (replicate 49000 0) = (replicate 17000 0, [replicate 48000 0]) \<and>
   length (fst (feed [] (replicate 49000 (0::byte)))) = 1000 + OVERLAP_SIZE"
  using chunk_extraction_policy [of "replicate 10 0" "[]" "replicate 49000 0"]
        chunk_extraction_policy [of "replicate 48000 0" "[]" "replicate 49000 0"]
  by (simp add: MIN_CHUNK_SIZE_def OVERLAP_SIZE_def)

text \<open>
  Claim C5. In a feed, a buffer that has grown beyond \<open>MAX_BUFFER_SIZE\<close> loses exactly
  its first \<open>length - MAX_BUFFER_SIZE\<close> bytes, and a buffer within the bound loses
  none; the chunks are cut from what is left.
\<close>

theorem overflow_drops_oldest_excess:
  "(length acc > MAX_BUFFER_SIZE \<longrightarrow>
      trim_overflow acc = drop (length acc - MAX_BUFFER_SIZE) acc \<and>
      length (trim_overflow acc) = MAX_BUFFER_SIZE \<and>
      length acc - length (trim_overflow acc) = length acc - MAX_BUFFER_SIZE) \<and>
   (length acc \<le> MAX_BUFFER_SIZE \<longrightarrow>
      trim_overflow acc = acc \<and> length acc - length (trim_overflow acc) = 0) \<and>
   acc = take (length acc - length (trim_overflow acc)) acc @ trim_overflow acc \<and>
   trim_overflow_events acc =
     (trim_overflow acc,
      if length acc > MAX_BUFFER_SIZE then [Overflow (length acc - MAX_BUFFER_SIZE)] else []) \<and>
   feed buf new = extract_chunks (trim_overflow (buf @ new))"
  by (simp add: trim_overflow_def trim_overflow_events_def feed_def Let_def
      del: drop_append length_append)

theorem overflow_drops_oldest_excess_witness:
  "length (replicate 160001 (0::byte)) > MAX_BUFFER_SIZE \<and>
   trim_overflow (replicate 160001 0) = replicate 160000 0 \<and>
   length (replicate 160001 (0::byte)) - length (trim_overflow (replicate 160001 0)) = 1 \<and>
   length (replicate 5 (0::byte)) \<le> MAX_BUFFER_SIZE \<and>
   trim_overflow (replicate 5 0) = replicate 5 0"
  using overflow_drops_oldest_excess [of "replicate 160001 0"]
        overflow_drops_oldest_excess [of "replicate 5 0"]
  by (simp add: MAX_BUFFER_SIZE_def)

subsection \<open>The trace refines the chunker\<close>

lemma extract_events_small:
  "length buf < MIN_CHUNK_SIZE \<Longrightarrow> extract_events buf = (buf, [])"
  by (subst extract_events.simps) simp

lemma extract_events_exact:
  "length buf = MIN_CHUNK_SIZE \<Longrightarrow> extract_events buf = ([], [Chunk buf, Cleared])"
  by (subst extract_events.simps, subst extract_events.simps) (simp add: MIN_CHUNK_SIZE_def)

lemma extract_events_more:
  "length buf > MIN_CHUNK_SIZE \<Longrightarrow>
   extract_events buf =
     (fst (extract_events (drop (MIN_CHUNK_SIZE - OVERLAP_SIZE) buf)),
      Chunk (take MIN_CHUNK_SIZE buf) # snd (extract_events (drop (MIN_CHUNK_SIZE - OVERLAP_SIZE) buf)))"
  by (subst extract_events.simps) (simp add: case_prod_beta Let_def)

lemma extract_events_extract_chunks:
  "fst (extract_events buf) = fst (extract_chunks buf) \<and>
   chunks_of (snd (extract_events buf)) = snd (extract_chunks buf)"
proof (induction buf rule: extract_chunks.induct)
  case (1 buf)
  show ?case
  proof (cases buf rule: length_cases)
    case small
    then show ?thesis by (simp add: extract_chunks_small extract_events_small)
  next
    case exact
    then show ?thesis by (simp add: extract_chunks_exact extract_events_exact)
  next
    case more
    with "1.IH" [OF _ refl refl] show ?thesis
      by (simp add: extract_chunks_more extract_events_more)
  qed
qed

lemma chunks_of_append: "chunks_of (xs @ ys) = chunks_of xs @ chunks_of ys"
  by (induction xs rule: chunks_of.induct) simp_all

lemma trim_overflow_events_fst: "fst (trim_overflow_events acc) = trim_overflow acc"
  by (simp add: trim_overflow_events_def trim_overflow_def Let_def)

lemma trim_overflow_events_chunks: "chunks_of (snd (trim_overflow_events acc)) = []"
  by (simp add: trim_overflow_events_def Let_def)

lemma feed_events_feed:
  "fst (feed_events buf message) = fst (feed buf message) \<and>
   chunks_of (snd (feed_events buf message)) = snd (feed buf message)"
  by (simp add: feed_events_def feed_def case_prod_beta chunks_of_append
      trim_overflow_events_fst trim_overflow_events_chunks extract_events_extract_chunks)

lemma run_events_feed_all:
  "fst (run_events buf messages) = fst (feed_all buf messages) \<and>
   chunks_of (snd (run_events buf messages)) = snd (feed_all buf messages)"
proof (induction messages arbitrary: buf)
  case Nil
  show ?case by simp
next
  case (Cons m ms)
  from Cons [of "fst (feed buf m)"] feed_events_feed [of buf m] show ?case
    by (simp add: case_prod_beta chunks_of_append)
qed

subsection \<open>Neighbouring chunks\<close>

lemma overlap_ok_append:
  "overlap_ok (xs @ ys) =
     (overlap_ok xs \<and> overlap_ok ys \<and> (xs = [] \<or> ys = [] \<or> joined (last xs) (hd ys)))"
proof (induction xs rule: overlap_ok.induct)
  case 1
  show ?case by simp
next
  case (2 e)
  show ?case by (cases ys) auto
next
  case (3 e1 e2 es)
  then show ?case by auto
qed

text \<open>
  What one run of the loop leaves: a trace whose neighbours are joined, that starts with
  the head of the buffer, and a rest that starts with the tail of the last chunk unless
  the buffer was cleared.
\<close>

lemma extract_events_shape:
  "overlap_ok (snd (extract_events buf)) \<and>
   (snd (extract_events buf) = [] \<and> fst (extract_events buf) = buf \<or>
    snd (extract_events buf) \<noteq> [] \<and> hd (snd (extract_events buf)) = Chunk (take MIN_CHUNK_SIZE buf)) \<and>
   (\<forall>c. snd (extract_events buf) \<noteq> [] \<and> last (snd (extract_events buf)) = Chunk c \<longrightarrow>
        OVERLAP_SIZE \<le> length (fst (extract_events buf)) \<and>
        take OVERLAP_SIZE (fst (extract_events buf)) = drop (MIN_CHUNK_SIZE - OVERLAP_SIZE) c)"
proof (induction buf rule: extract_events.induct)
  case (1 buf)
  show ?case
  proof (cases buf rule: length_cases)
    case small
    then show ?thesis by (simp add: extract_events_small)
  next
    case exact
    then show ?thesis by (simp add: extract_events_exact)
  next
    case more
    let ?b = "drop (MIN_CHUNK_SIZE - OVERLAP_SIZE) buf"
    let ?c = "take MIN_CHUNK_SIZE buf"
    have IH: "overlap_ok (snd (extract_events ?b))"
      "snd (extract_events ?b) = [] \<and> fst (extract_events ?b) = ?b \<or>
       snd (extract_events ?b) \<noteq> [] \<and> hd (snd (extract_events ?b)) = Chunk (take MIN_CHUNK_SIZE ?b)"
      "\<And>c. snd (extract_events ?b) \<noteq> [] \<Longrightarrow> last (snd (extract_events ?b)) = Chunk c \<Longrightarrow>
        OVERLAP_SIZE \<le> length (fst (extract_events ?b)) \<and>
        take OVERLAP_SIZE (fst (extract_events ?b)) = drop (MIN_CHUNK_SIZE - OVERLAP_SIZE) c"
      using "1.IH" [OF _ refl _ refl, of ?b "[]"] more by auto
    have tail: "drop (MIN_CHUNK_SIZE - OVERLAP_SIZE) ?c = take OVERLAP_SIZE ?b"
      by (simp add: drop_take MIN_CHUNK_SIZE_def OVERLAP_SIZE_def)
    have len: "OVERLAP_SIZE \<le> length ?b"
      using more by (simp add: MIN_CHUNK_SIZE_def OVERLAP_SIZE_def)
    have eq: "extract_events buf = (fst (extract_events ?b), Chunk ?c # snd (extract_events ?b))"
      using more by (rule extract_events_more)
    show ?thesis
    proof (cases "snd (extract_events ?b)")
      case Nil
      with IH(2) have "fst (extract_events ?b) = ?b" by simp
      with Nil tail len show ?thesis by (simp add: eq)
    next
      case (Cons e es)
      with IH(2) have e: "e = Chunk (take MIN_CHUNK_SIZE ?b)" by simp
      have j: "joined (Chunk ?c) e"
        unfolding e using tail by (simp add: MIN_CHUNK_SIZE_def OVERLAP_SIZE_def)
      from IH(1) IH(3) Cons j show ?thesis by (simp add: eq)
    qed
  qed
qed

lemma feed_events_shape:
  "overlap_ok (snd (feed_events buf m)) \<and>
   (snd (feed_events buf m) = [] \<longrightarrow> prefix buf (fst (feed_events buf m))) \<and>
   (\<forall>c es. snd (feed_events buf m) = Chunk c # es \<and> OVERLAP_SIZE \<le> length buf \<longrightarrow>
        take OVERLAP_SIZE c = take OVERLAP_SIZE buf) \<and>
   (\<forall>c. snd (feed_events buf m) \<noteq> [] \<and> last (snd (feed_events buf m)) = Chunk c \<longrightarrow>
        OVERLAP_SIZE \<le> length (fst (feed_events buf m)) \<and>
        take OVERLAP_SIZE (fst (feed_events buf m)) = drop (MIN_CHUNK_SIZE - OVERLAP_SIZE) c)"
proof (cases "length (buf @ m) > MAX_BUFFER_SIZE")
  case True
  define acc where "acc = drop (length (buf @ m) - MAX_BUFFER_SIZE) (buf @ m)"
  have eq: "feed_events buf m =
      (fst (extract_events acc), Overflow (length (buf @ m) - MAX_BUFFER_SIZE) # snd (extract_events acc))"
    using True unfolding acc_def feed_events_def trim_overflow_events_def
    by (simp add: case_prod_beta Let_def del: drop_append length_append)
  from extract_events_shape [of acc] show ?thesis
    unfolding eq by (cases "snd (extract_events acc)") auto
next
  case False
  have eq: "feed_events buf m = extract_events (buf @ m)"
    using False unfolding feed_events_def trim_overflow_events_def
    by (simp add: case_prod_beta)
  from extract_events_shape [of "buf @ m"] show ?thesis
    unfolding eq by (cases "snd (extract_events (buf @ m))") (auto simp: MIN_CHUNK_SIZE_def OVERLAP_SIZE_def)
qed

lemma run_events_shape:
  "overlap_ok (snd (run_events buf ms)) \<and>
   (\<forall>c es. snd (run_events buf ms) = Chunk c # es \<and> OVERLAP_SIZE \<le> length buf \<longrightarrow>
        take OVERLAP_SIZE c = take OVERLAP_SIZE buf)"
proof (induction ms arbitrary: buf)
  case Nil
  show ?case by simp
next
  case (Cons m ms)
  let ?b1 = "fst (feed_events buf m)" and ?e1 = "snd (feed_events buf m)"
  let ?e2 = "snd (run_events ?b1 ms)"
  have eq: "snd (run_events buf (m # ms)) = ?e1 @ ?e2"
    by (simp add: case_prod_beta)
  note F = feed_events_shape [of buf m]
  note R = Cons.IH [of ?b1]
  have junction: "?e1 = [] \<or> ?e2 = [] \<or> joined (last ?e1) (hd ?e2)"
  proof (cases "?e1 = [] \<or> ?e2 = []")
    case True
    then show ?thesis by blast
  next
    case False
    then obtain x xs where e2: "?e2 = x # xs" by (cases ?e2) auto
    show ?thesis
    proof (cases "last ?e1")
      case (Chunk a)
      with F False have b1: "OVERLAP_SIZE \<le> length ?b1"
        "take OVERLAP_SIZE ?b1 = drop (MIN_CHUNK_SIZE - OVERLAP_SIZE) a" by auto
      show ?thesis
      proof (cases x)
        case (Chunk b)
        with R e2 b1(1) have "take OVERLAP_SIZE b = take OVERLAP_SIZE ?b1" by auto
        with b1(2) \<open>last ?e1 = Chunk a\<close> e2 Chunk show ?thesis by simp
      qed (simp_all add: e2 \<open>last ?e1 = Chunk a\<close>)
    qed simp_all
  qed
  have ok: "overlap_ok (?e1 @ ?e2)"
    using F R junction by (simp add: overlap_ok_append)
  have head: "take OVERLAP_SIZE c = take OVERLAP_SIZE buf"
    if "?e1 @ ?e2 = Chunk c # es" "OVERLAP_SIZE \<le> length buf" for c es
  proof (cases "?e1")
    case Nil
    with F have "prefix buf ?b1" by simp
    then obtain r where r: "?b1 = buf @ r" by (auto simp: prefix_def)
    from Nil that(1) have "?e2 = Chunk c # es" by simp
    moreover from r that(2) have "OVERLAP_SIZE \<le> length ?b1" by simp
    ultimately have "take OVERLAP_SIZE c = take OVERLAP_SIZE ?b1" using R by blast
    also have "\<dots> = take OVERLAP_SIZE buf" using that(2) by (simp add: r)
    finally show ?thesis .
  next
    case (Cons e es1)
    with that(1) have "?e1 = Chunk c # es1" by simp
    with F that(2) show ?thesis by blast
  qed
  from ok head show ?case unfolding eq by blast
qed

lemma extract_events_chunk_length:
  "Chunk c \<in> set (snd (extract_events buf)) \<Longrightarrow> length c = MIN_CHUNK_SIZE"
proof (induction buf rule: extract_events.induct)
  case (1 buf)
  show ?case
  proof (cases buf rule: length_cases)
    case small
    with "1.prems" show ?thesis by (simp add: extract_events_small)
  next
    case exact
    with "1.prems" show ?thesis by (simp add: extract_events_exact)
  next
    case more
    with "1.IH" [OF _ refl _ refl, of "drop (MIN_CHUNK_SIZE - OVERLAP_SIZE) buf" "[]"] "1.prems"
    show ?thesis by (auto simp add: extract_events_more)
  qed
qed

lemma feed_events_chunk_length:
  "Chunk c \<in> set (snd (feed_events buf m)) \<Longrightarrow> length c = MIN_CHUNK_SIZE"
  by (auto simp: feed_events_def trim_overflow_events_def case_prod_beta Let_def
      dest: extract_events_chunk_length split: if_splits simp del: drop_append)

lemma run_events_chunk_length:
  "Chunk c \<in> set (snd (run_events buf ms)) \<Longrightarrow> length c = MIN_CHUNK_SIZE"
  by (induction ms arbitrary: buf)
     (auto simp: case_prod_beta dest: feed_events_chunk_length)

lemma run_two_chunks:
  "run_events [] [replicate 32000 1 @ replicate 16000 2 @ replicate 33000 3] =
     (replicate 17000 3,
      [] @ Chunk (replicate 32000 1 @ replicate 16000 2) #
           Chunk (replicate 16000 2 @ replicate 32000 3) # [])"
  by (simp add: feed_events_def trim_overflow_events_def extract_events_more extract_events_small
      MIN_CHUNK_SIZE_def OVERLAP_SIZE_def MAX_BUFFER_SIZE_def)

text \<open>
  Claim C8. In the trace of the messages fed to one session buffer, two chunks with
  nothing between them (no clearing of the buffer at exactly \<open>MIN_CHUNK_SIZE\<close> bytes, no
  overflow trim) overlap: the last \<open>OVERLAP_SIZE\<close> bytes of the earlier chunk are the
  first \<open>OVERLAP_SIZE\<close> bytes of the later one. The two chunks may come from the same
  message or from different messages.
\<close>

theorem consecutive_chunks_overlap:
  assumes "run_events buf messages = (buf', pre @ Chunk c1 # Chunk c2 # post)"
  shows "length c1 = MIN_CHUNK_SIZE \<and> length c2 = MIN_CHUNK_SIZE \<and>
         drop (length c1 - OVERLAP_SIZE) c1 = take OVERLAP_SIZE c2"
proof -
  from assms have evs: "snd (run_events buf messages) = pre @ Chunk c1 # Chunk c2 # post"
    by simp
  have "overlap_ok (pre @ Chunk c1 # Chunk c2 # post)"
    using run_events_shape [of buf messages] unfolding evs by blast
  then have j: "drop (MIN_CHUNK_SIZE - OVERLAP_SIZE) c1 = take OVERLAP_SIZE c2"
    by (simp add: overlap_ok_append)
  have l1: "length c1 = MIN_CHUNK_SIZE"
    by (rule run_events_chunk_length [of _ buf messages]) (simp add: evs)
  have l2: "length c2 = MIN_CHUNK_SIZE"
    by (rule run_events_chunk_length [of _ buf messages]) (simp add: evs)
  from j l1 l2 show ?thesis by simp
qed

theorem consecutive_chunks_overlap_witness:
  "run_events [] [replicate 32000 1 @ replicate 16000 2 @ replicate 33000 3] =
     (replicate 17000 3,
      [] @ Chunk (replicate 32000 1 @ replicate 16000 2) #
           Chunk (replicate 16000 2 @ replicate 32000 3) # []) \<and>
   drop (length (replicate 32000 (1::byte) @ replicate 16000 2) - OVERLAP_SIZE)
        (replicate 32000 (1::byte) @ replicate 16000 2) =
   take OVERLAP_SIZE (replicate 16000 (2::byte) @ replicate 32000 3)"
  using consecutive_chunks_overlap [OF run_two_chunks] run_two_chunks by blast

section \<open>Properties of the handler\<close>

lemma make_buffer_key_nonempty: "make_buffer_key py addr src \<noteq> []"
  by (simp add: make_buffer_key_def)

lemma send_fields [simp]:
  "source_type (send m s) = source_type s"
  "buffer_key (send m s) = buffer_key s"
  "audio_buffers (send m s) = audio_buffers s"
  "tasks (send m s) = tasks s"
  "sent (send m s) = sent s @ [m]"
  by (simp_all add: send_def)

lemma delete_buffer_fields [simp]:
  "source_type (delete_buffer s) = source_type s"
  "buffer_key (delete_buffer s) = buffer_key s"
  "tasks (delete_buffer s) = tasks s"
  "sent (delete_buffer s) = sent s"
  by (simp_all add: delete_buffer_def split: option.splits)

text \<open>
  A binary message on a started stream is a feed of the stream's buffer: the chunker
  above is what the handler runs.
\<close>

lemma handle_binary_feeds:
  assumes "truthy (source_type s)" and "buffer_key s = Some key" and "key \<noteq> []"
      and "audio_buffers s key = Some buf"
  shows "handle_binary py addr b s =
           s\<lparr>audio_buffers := (audio_buffers s)(key \<mapsto> fst (feed buf b)),
             tasks := tasks s @ map (\<lambda>chunk. (source_type s, chunk)) (snd (feed buf b))\<rparr>"
  using assms by (simp add: handle_binary_def case_prod_beta)

text \<open>A buffer key is never the empty string: it holds the underscore.\<close>

lemma handle_control_key:
  "buffer_key s \<noteq> Some [] \<Longrightarrow> buffer_key (handle_control py addr data s) \<noteq> Some []"
  by (cases data) (simp_all add: handle_control_def Let_def make_buffer_key_nonempty)

lemma handle_binary_key:
  "buffer_key s \<noteq> Some [] \<Longrightarrow> buffer_key (handle_binary py addr b s) \<noteq> Some []"
  by (auto simp: handle_binary_def Let_def make_buffer_key_nonempty case_prod_beta
      split: option.splits)

lemma handle_message_key:
  "buffer_key s \<noteq> Some [] \<Longrightarrow> buffer_key (handle_message py addr m s) \<noteq> Some []"
  by (cases m) (simp_all add: handle_message_def handle_control_key handle_binary_key
      split: loads_result.splits)

lemma message_loop_key:
  "buffer_key s \<noteq> Some [] \<Longrightarrow> buffer_key (message_loop py addr ms s) \<noteq> Some []"
  unfolding message_loop_def
  by (induction ms arbitrary: s) (simp_all add: handle_message_key)

lemma handle_binary_drains:
  assumes "buffer_key s \<noteq> Some []"
      and "buffer_key (handle_binary py addr b s) = Some key"
      and "audio_buffers (handle_binary py addr b s) key = Some buf"
  shows "length buf < MIN_CHUNK_SIZE"
  using assms feed_rest_length
  by (auto simp: handle_binary_def Let_def make_buffer_key_nonempty case_prod_beta
      split: option.splits if_splits)

text \<open>
  Claim C10. When the handler has processed a binary message, the buffer under the
  connection's current key, if there is one, holds fewer than \<open>MIN_CHUNK_SIZE\<close> bytes,
  and so fewer than \<open>MAX_BUFFER_SIZE\<close>. (There is none when a \<open>stop\<close> has deleted it:
  the binary message is then answered with an error and no buffer is made.)
\<close>

theorem buffer_below_chunk_size_after_binary:
  assumes "s' = message_loop py addr (messages @ [Binary b]) (open_session buffers)"
      and "buffer_key s' = Some key"
      and "audio_buffers s' key = Some buf"
  shows "length buf < MIN_CHUNK_SIZE \<and> length buf < MAX_BUFFER_SIZE"
proof -
  let ?s = "message_loop py addr messages (open_session buffers)"
  have s': "s' = handle_binary py addr b ?s"
    using assms(1) by (simp add: message_loop_def handle_message_def)
  have "buffer_key ?s \<noteq> Some []"
    by (rule message_loop_key) (simp add: open_session_def)
  from handle_binary_drains [OF this] assms(2,3) have "length buf < MIN_CHUNK_SIZE"
    unfolding s' by blast
  then show ?thesis by (simp add: MIN_CHUNK_SIZE_def MAX_BUFFER_SIZE_def)
qed

theorem buffer_below_chunk_size_after_binary_witness:
  "buffer_key (message_loop example_py ''A'' ([] @ [Binary (replicate 49000 0)]) (open_session Map.empty))
     = Some ''A_microphone'' \<and>
   audio_buffers (message_loop example_py ''A'' ([] @ [Binary (replicate 49000 0)]) (open_session Map.empty))
     ''A_microphone'' = Some (replicate 17000 0) \<and>
   length (replicate 17000 (0::byte)) < MIN_CHUNK_SIZE \<and>
   length (replicate 17000 (0::byte)) < MAX_BUFFER_SIZE"
proof -
  let ?s = "message_loop example_py ''A'' ([] @ [Binary (replicate 49000 0)]) (open_session Map.empty)"
  have k: "buffer_key ?s = Some ''A_microphone''"
    by (simp add: message_loop_def handle_message_def handle_binary_def open_session_def
        make_buffer_key_def py_str_def feed_one_chunk Let_def)
  have b: "audio_buffers ?s ''A_microphone'' = Some (replicate 17000 0)"
    by (simp add: message_loop_def handle_message_def handle_binary_def open_session_def
        make_buffer_key_def py_str_def feed_one_chunk Let_def)
  from buffer_below_chunk_size_after_binary [OF refl k b] k b show ?thesis by blast
qed








text \<open>The grammar on the texts of the examples.\<close>

lemma spec_valid_json_examples:
  \<open>spec_valid_json ''{"type":"start","source":"microphone"}'' \<and>
   spec_valid_json ''{"type":"start","source":"system"}'' \<and>
   spec_valid_json '' [1, -2.5e+3, true, null, {"a": []}, "x"] '' \<and>
   \<not> spec_valid_json ''{"type":'' \<and>
   \<not> spec_valid_json ''[1,]'' \<and>
   \<not> spec_valid_json ''NaN''\<close>
  by code_simp

text \<open>
  Claim C4, as the code has it. After two \<open>start\<close> messages with different sources
  and the disconnect, the buffer of the first source is still in \<open>audio_buffers\<close>: the
  \<open>finally\<close> clause deletes the buffer of the current key only.
\<close>

theorem disconnect_keeps_earlier_source_buffer:
  assumes "json_loads py m1 = Loaded (JObj [(''type'', JStr ''start''), (''source'', JStr src1)])"
      and "json_loads py m2 = Loaded (JObj [(''type'', JStr ''start''), (''source'', JStr src2)])"
      and "src1 \<noteq> src2"
  shows "audio_buffers (handle_websocket py addr buffers [Text m1, Text m2]) (addr @ ''_'' @ src1) = Some [] \<and>
         audio_buffers (handle_websocket py addr buffers [Text m1, Text m2]) (addr @ ''_'' @ src2) = None"
  using assms
  by (simp add: handle_websocket_def message_loop_def handle_message_def handle_control_def
      dict_get_def open_session_def delete_buffer_def make_buffer_key_def py_str_def Let_def)

theorem disconnect_keeps_earlier_source_buffer_witness:
  \<open>audio_buffers
     (handle_websocket example_py ''A'' Map.empty
        [Text ''{"type":"start","source":"microphone"}'', Text ''{"type":"start","source":"system"}''])
     ''A_microphone'' = Some [] \<and>
    audio_buffers
     (handle_websocket example_py ''A'' Map.empty
        [Text ''{"type":"start","source":"microphone"}'', Text ''{"type":"start","source":"system"}''])
     ''A_system'' = None\<close>
  using disconnect_keeps_earlier_source_buffer
    [of example_py
        \<open>''{"type":"start","source":"microphone"}''\<close> "''microphone''"
        \<open>''{"type":"start","source":"system"}''\<close> "''system''" "''A''" Map.empty]
  by (simp add: example_loads_def example_py_def)

section \<open>Properties of the transcription\<close>

lemma py_strip_idem: "py_strip (py_strip s) = py_strip s"
proof -
  define a where "a = dropWhile isspace s"
  define b where "b = dropWhile isspace (rev a)"
  have strip: "py_strip s = rev b" by (simp add: py_strip_def a_def b_def)
  have "rev a = takeWhile isspace (rev a) @ b" by (simp add: b_def)
  then have "rev (rev a) = rev (takeWhile isspace (rev a) @ b)" by simp
  then have a: "a = rev b @ rev (takeWhile isspace (rev a))" by simp
  have front: "dropWhile isspace (rev b) = rev b"
  proof (cases "b = []")
    case True
    then show ?thesis by simp
  next
    case False
    then have "hd (rev b) = hd a" using a by (metis hd_append2 rev_is_Nil_conv)
    moreover have "a \<noteq> []" using a False by auto
    then have "\<not> isspace (hd a)" unfolding a_def by (rule hd_dropWhile)
    ultimately show ?thesis using False by (simp add: dropWhile_eq_self_iff)
  qed
  have rear: "dropWhile isspace b = b" by (simp add: b_def)
  show ?thesis unfolding strip by (simp add: py_strip_def front rear)
qed

lemma full_text_of_strip: "py_strip (full_text_of segs) = full_text_of segs"
  by (simp add: full_text_of_def py_strip_idem)

lemma full_text_of_Nil: "full_text_of [] = []"
  by (simp add: full_text_of_def py_strip_def)

lemma collect_text_parts_filter:
  "collect_text_parts segments text_parts =
     text_parts @ map (\<lambda>seg. py_strip (seg_text seg)) (filter (\<lambda>seg. \<not> dropped seg) segments)"
proof (induction segments arbitrary: text_parts)
  case Nil
  show ?case by simp
next
  case (Cons seg segments)
  show ?case
    by (cases "no_speech_prob seg") (auto simp: Cons.IH dropped_def Let_def)
qed

text \<open>
  Claim C6, as the code has it. The text of a transcription is the trimmed texts,
  joined with one space and trimmed, of the segments that are not dropped; a segment is
  dropped exactly when its trimmed text has fewer than two characters, or its no-speech
  confidence exceeds 0.5, or its trimmed text contains, ignoring case, a phrase of the
  denylist.
\<close>

theorem segments_kept_and_joined:
  "full_text_of segments =
     py_strip (py_join '' '' (map (\<lambda>seg. py_strip (seg_text seg))
                                  (filter (\<lambda>seg. \<not> dropped seg) segments)))"
  by (simp add: full_text_of_def collect_text_parts_filter)

text \<open>
  Claim C6 as stated fails: the segment \<open>I\<close>, with no-speech confidence 0, is neither
  above the threshold nor on the denylist, and the loop drops it.
\<close>

theorem short_segment_dropped_counterexample:
  "\<not> spec_dropped \<lparr>seg_text = ''I'', no_speech_prob = Some 0\<rparr> \<and>
   full_text_of [\<lparr>seg_text = ''I'', no_speech_prob = Some 0\<rparr>] = [] \<and>
   spec_full_text [\<lparr>seg_text = ''I'', no_speech_prob = Some 0\<rparr>] = ''I''"
  by code_simp

lemma example_segments_joined:
  "py_strip (py_join '' '' (map (\<lambda>seg. py_strip (seg_text seg))
      (filter (\<lambda>seg. \<not> dropped seg)
         [\<lparr>seg_text = '' Hello'', no_speech_prob = Some 0.1\<rparr>,
          \<lparr>seg_text = '' Thank you.'', no_speech_prob = Some 0.2\<rparr>,
          \<lparr>seg_text = '' I'', no_speech_prob = Some 0.1\<rparr>,
          \<lparr>seg_text = '' world'', no_speech_prob = Some 0.9\<rparr>,
          \<lparr>seg_text = '' again '', no_speech_prob = None\<rparr>]))) = ''Hello again''"
  by code_simp

theorem segments_kept_and_joined_witness:
  "full_text_of
     [\<lparr>seg_text = '' Hello'', no_speech_prob = Some 0.1\<rparr>,
      \<lparr>seg_text = '' Thank you.'', no_speech_prob = Some 0.2\<rparr>,
      \<lparr>seg_text = '' I'', no_speech_prob = Some 0.1\<rparr>,
      \<lparr>seg_text = '' world'', no_speech_prob = Some 0.9\<rparr>,
      \<lparr>seg_text = '' again '', no_speech_prob = None\<rparr>] = ''Hello again''"
  unfolding segments_kept_and_joined by (rule example_segments_joined)

text \<open>
  Claim C7. \<open>transcribe_audio_request\<close> answers a payload shorter than 2000 bytes (PCM)
  or 1000 bytes (WebM) with success, the empty text and the language \<open>en\<close>, and the
  model is not invoked.
\<close>

theorem short_payload_short_circuits:
  assumes "length audio_data < (if is_webm then 1000 else 2000)"
  shows "transcribe_audio_request e audio_data is_webm =
           (JObj [(''success'', JBool True), (''text'', JStr []), (''language'', JStr ''en'')], [])"
  using assms by (cases is_webm) (simp_all add: transcribe_audio_request_def)

theorem short_payload_short_circuits_witness:
  "length (replicate 500 (0::byte)) < (if False then 1000 else 2000) \<and>
   transcribe_audio_request raising_env (replicate 500 0) False =
     (JObj [(''success'', JBool True), (''text'', JStr []), (''language'', JStr ''en'')], [])"
proof -
  have h: "length (replicate 500 (0::byte)) < (if False then 1000 else 2000)" by simp
  from short_payload_short_circuits [OF h] h show ?thesis by blast
qed

lemma octet_stream_not_webm:
  "\<not> sublist ''webm'' (py_lower ''application/octet-stream'')"
  by code_simp

lemma zeros_not_magic: "replicate n (0::byte) \<noteq> WEBM_MAGIC"
proof
  assume "replicate n (0::byte) = WEBM_MAGIC"
  then have "set WEBM_MAGIC \<subseteq> set (replicate n (0::byte))"
    by simp
  then show False by (auto simp: WEBM_MAGIC_def)
qed

text \<open>
  The same through the HTTP handler: a PCM body of 500 bytes, with the deadline met,
  is answered with status 200 and that body, and the model is not invoked.
\<close>

lemma short_pcm_request:
  "\<not> deadline_missed e \<Longrightarrow>
   handle_transcribe e \<lparr>content_type = ''application/octet-stream'', content_length = 500,
                         rfile = replicate 500 0\<rparr> =
     (SendJson 200
        (JObj [(''success'', JBool True), (''text'', JStr []), (''language'', JStr ''en'')]), [])"
  by (simp add: handle_transcribe_def transcribe_audio_request_def octet_stream_not_webm
      zeros_not_magic Let_def)

lemma transcribe_audio_request_envelope:
  "response_envelope (fst (transcribe_audio_request e audio_data is_webm))"
  by (auto simp: transcribe_audio_request_def response_envelope_def Let_def
      split: prod.splits sum.splits option.splits)

lemma pcm_bytes_to_wav_even:
  "2000 \<le> length pcm \<Longrightarrow> even (length pcm) \<Longrightarrow>
   pcm_bytes_to_wav pcm = Inr (PcmWav SAMPLE_RATE pcm)"
  by (auto simp: pcm_bytes_to_wav_def Let_def)

lemma model_failure_no_errno:
  "\<not> sublist ''Invalid data'' ''model failure'' \<and> \<not> sublist ''Errno'' ''model failure''"
  by code_simp

lemma raising_request:
  "fst (handle_transcribe raising_env
          \<lparr>content_type = ''application/octet-stream'', content_length = 2000,
           rfile = replicate 2000 0\<rparr>) =
     SendJson 200 (JObj [(''success'', JBool False), (''error'', JStr ''model failure''),
                         (''text'', JStr [])])"
  by (simp add: handle_transcribe_def transcribe_audio_request_def transcribe_audio_chunk_def
      pcm_bytes_to_wav_even raising_env_def octet_stream_not_webm zeros_not_magic
      model_failure_no_errno Let_def)

text \<open>
  Claim C3, as the code has it. A request to \<open>/transcribe\<close> with a Content-Length
  other than 0 is answered with a JSON object that has a string \<open>text\<close> and a boolean
  \<open>success\<close>; when \<open>success\<close> is true it has a string \<open>language\<close> and no \<open>error\<close>, when
  \<open>success\<close> is false it has a string \<open>error\<close> and no \<open>language\<close>.
\<close>

theorem transcribe_response_envelope:
  assumes "content_length req \<noteq> 0"
  shows "case fst (handle_transcribe e req) of
           SendJson code body \<Rightarrow> response_envelope body
         | SendError code msg \<Rightarrow> False"
proof -
  define audio_data where "audio_data = take (content_length req) (rfile req)"
  define is_webm where "is_webm = (length audio_data \<ge> 4 \<and>
      (take 4 audio_data = WEBM_MAGIC \<or> sublist ''webm'' (py_lower (content_type req))))"
  have r: "fst (handle_transcribe e req) =
      (if deadline_missed e
       then SendJson 500 (JObj [(''success'', JBool False), (''error'', JStr []), (''text'', JStr [])])
       else SendJson 200 (fst (transcribe_audio_request e audio_data is_webm)))"
    using assms unfolding handle_transcribe_def audio_data_def is_webm_def
    by (simp add: Let_def case_prod_beta)
  have t: "response_envelope
      (JObj [(''success'', JBool False), (''error'', JStr []), (''text'', JStr [])])"
    by (simp add: response_envelope_def)
  from t transcribe_audio_request_envelope [of e audio_data is_webm] show ?thesis
    unfolding r by simp
qed

theorem transcribe_response_envelope_witness:
  "content_length \<lparr>content_type = ''application/octet-stream'', content_length = 2000,
                   rfile = replicate 2000 (0::byte)\<rparr> \<noteq> 0 \<and>
   fst (handle_transcribe raising_env
          \<lparr>content_type = ''application/octet-stream'', content_length = 2000,
           rfile = replicate 2000 0\<rparr>) =
     SendJson 200 (JObj [(''success'', JBool False), (''error'', JStr ''model failure''),
                         (''text'', JStr [])]) \<and>
   response_envelope (JObj [(''success'', JBool False), (''error'', JStr ''model failure''),
                            (''text'', JStr [])])"
proof -
  let ?req = "\<lparr>content_type = ''application/octet-stream'', content_length = 2000,
               rfile = replicate 2000 (0::byte)\<rparr>"
  have h: "content_length ?req \<noteq> 0" by simp
  from transcribe_response_envelope [OF h, of raising_env] h raising_request
  show ?thesis by simp
qed

text \<open>
  Claim C3 as stated fails: for 2000 bytes of PCM and a model that raises, the body
  has \<open>success\<close> false and no \<open>language\<close>.
\<close>

theorem failure_envelope_lacks_language_counterexample:
  "fst (handle_transcribe raising_env
          \<lparr>content_type = ''application/octet-stream'', content_length = 2000,
           rfile = replicate 2000 0\<rparr>) =
     SendJson 200 (JObj [(''success'', JBool False), (''error'', JStr ''model failure''),
                         (''text'', JStr [])]) \<and>
   \<not> spec_envelope (JObj [(''success'', JBool False), (''error'', JStr ''model failure''),
                          (''text'', JStr [])])"
  using raising_request by (simp add: spec_envelope_def)

lemma silent_chunk:
  "fst (transcribe_audio_chunk silent_env (replicate 48000 0) False) = Inr None"
  by (simp add: transcribe_audio_chunk_def pcm_bytes_to_wav_even silent_env_def full_text_of_Nil)

text \<open>
  Claim C1, as the code has it. When \<open>transcribe_audio_chunk\<close> finds no text in a
  chunk and returns \<open>None\<close>, \<open>process_audio_chunk\<close> sends the client one message of type
  \<open>error\<close>, tagged with the source, whose text is that of the AttributeError; it sends
  no \<open>silence\<close> message.
\<close>

theorem silence_result_reported_as_error:
  assumes "fst (transcribe_audio_chunk e chunk False) = Inr None"
  shows "process_audio_chunk e source chunk =
           [JObj [(''type'', JStr ''error''), (''source'', source),
                  (''message'', JStr (quoted ''NoneType'' @ '' object has no attribute '' @ quoted ''get''))]]"
  using assms by (simp add: process_audio_chunk_def no_attribute_get_def)

theorem silence_result_reported_as_error_witness:
  "fst (transcribe_audio_chunk silent_env (replicate 48000 0) False) = Inr None \<and>
   process_audio_chunk silent_env (JStr ''microphone'') (replicate 48000 0) =
     [JObj [(''type'', JStr ''error''), (''source'', JStr ''microphone''),
            (''message'', JStr (quoted ''NoneType'' @ '' object has no attribute '' @ quoted ''get''))]]"
  using silence_result_reported_as_error [OF silent_chunk] silent_chunk by blast

text \<open>
  The first scenario up to the task: \<open>MIN_CHUNK_SIZE\<close> zero bytes in one binary
  message give one task, for the source \<open>microphone\<close>, and leave the buffer empty.
\<close>

lemma silence_scenario_task:
  "tasks (message_loop example_py ''A'' [Binary (replicate 48000 0)] (open_session Map.empty)) =
     [(JStr ''microphone'', replicate 48000 0)] \<and>
   audio_buffers (message_loop example_py ''A'' [Binary (replicate 48000 0)] (open_session Map.empty))
     ''A_microphone'' = Some []"
  by (simp add: message_loop_def handle_message_def handle_binary_def open_session_def
      make_buffer_key_def py_str_def feed_exact_chunk Let_def send_def)

text \<open>
  No input makes \<open>process_audio_chunk\<close> send a \<open>silence\<close> message: the text of a
  transcription that is returned is trimmed and not empty.
\<close>

lemma process_audio_chunk_never_silence:
  "JObj [(''type'', JStr ''silence''), (''source'', source)] \<notin> set (process_audio_chunk e source chunk)"
  by (auto simp: process_audio_chunk_def transcribe_audio_chunk_def Let_def full_text_of_strip
      split: sum.splits option.splits whisper_result.splits if_splits)

end
